theory Spec2Isabelle
  imports Complex_Main "HOL-Library.Multiset"
begin

section \<open>Data model\<close>

text \<open>
  The collections of the document database are lists of documents in insertion order;
  \<open>findOne\<close> is \<^const>\<open>find\<close> (the first match) and \<open>find\<close> is \<^const>\<open>filter\<close>.
  An ObjectId is a natural number, a \<open>Date\<close> is its millisecond timestamp.  A
  JavaScript number is modelled as an exact rational: the request schemas accept
  fractional numbers, and every number the handlers compute with is a small sum.
\<close>

type_synonym oid = nat

datatype rsvp_status = Going | Maybe | NotGoing

datatype diet = Nonveg | Veg | Vegan

text \<open>A value of a parsed JSON request body; \<open>JUndefined\<close> is an absent key.\<close>

datatype json = JUndefined | JNull | JBool bool | JNum rat | JStr string | JOther

text \<open>models/Event.ts\<close>

record event_doc =
  e_id :: oid
  e_title :: string
  e_description :: string
  e_date :: int
  e_location :: string
  e_category :: string
  e_capacity :: rat
  e_hostName :: string
  e_hostMobile :: string
  e_hostEmail :: string
  e_createdBy :: oid

text \<open>models/Token.ts\<close>

record token_doc =
  tk_id :: oid
  tk_eventId :: oid
  tk_email :: string
  tk_name :: "string option"
  tk_token :: string
  tk_createdAt :: int
  tk_updatedAt :: int

text \<open>models/User.ts is not part of the sources; the routes read only these two fields.\<close>

record user_doc =
  u_id :: oid
  u_email :: string

text \<open>models/RSVP.ts; an optional field that a stored document lacks is \<open>None\<close>.\<close>

record rsvp_doc =
  r_id :: oid
  r_eventId :: oid
  r_userId :: "oid option"
  r_tokenId :: "oid option"
  r_status :: rsvp_status
  r_companions :: "rat option"
  r_guestName :: "string option"
  r_guestEmail :: "string option"
  r_dietaryPreference :: "diet option"
  r_companionDietaryPreference :: "diet option"
  r_createdAt :: int
  r_updatedAt :: int

record db =
  events :: "event_doc list"
  tokens :: "token_doc list"
  users :: "user_doc list"
  rsvps :: "rsvp_doc list"

text \<open>
  The error responses of the handlers, with the payload the JSON body carries, and the
  HTTP status each is sent with.
\<close>

datatype error =
    ValidationError
  | EventNotFound
  | InvalidToken
  | AlreadyResponded rsvp_status rat int
  | EventFull rat
  | PastDate
  | InternalError

fun http_status :: "error \<Rightarrow> nat" where
  "http_status ValidationError = 400"
| "http_status EventNotFound = 404"
| "http_status InvalidToken = 404"
| "http_status (AlreadyResponded st c t) = 400"
| "http_status (EventFull n) = 400"
| "http_status PastDate = 400"
| "http_status InternalError = 500"

subsection \<open>Strings\<close>

text \<open>
  \<open>String.prototype.trim\<close> and \<open>toLowerCase\<close> on the ASCII range (a \<^typ>\<open>char\<close>
  is a byte).
\<close>

definition is_space :: "char \<Rightarrow> bool" where
  "is_space c = (c \<in> set [CHR 0x20, CHR 0x09, CHR 0x0A, CHR 0x0B, CHR 0x0C, CHR 0x0D])"

definition trim :: "string \<Rightarrow> string" where
  "trim s = rev (dropWhile is_space (rev (dropWhile is_space s)))"

definition lower_char :: "char \<Rightarrow> char" where
  "lower_char c =
     (let n = (of_char c :: nat) in if 65 \<le> n \<and> n \<le> 90 then char_of (n + 32) else c)"

definition toLowerCase :: "string \<Rightarrow> string" where
  "toLowerCase s = map lower_char s"

subsection \<open>Schema fragments (zod)\<close>

text \<open>\<open>z.enum(['going', 'maybe', 'not-going'])\<close>\<close>

definition parse_status3 :: "json \<Rightarrow> rsvp_status option" where
  "parse_status3 j =
     (case j of
        JStr s \<Rightarrow>
          (if s = ''going'' then Some Going
           else if s = ''maybe'' then Some Maybe
           else if s = ''not-going'' then Some NotGoing
           else None)
      | _ \<Rightarrow> None)"

text \<open>\<open>z.enum(['going', 'not-going'])\<close>\<close>

definition parse_status2 :: "json \<Rightarrow> rsvp_status option" where
  "parse_status2 j =
     (case j of
        JStr s \<Rightarrow>
          (if s = ''going'' then Some Going
           else if s = ''not-going'' then Some NotGoing
           else None)
      | _ \<Rightarrow> None)"

text \<open>\<open>z.enum(['nonveg', 'veg', 'vegan']).optional()\<close>: the outer option is the parse.\<close>

definition parse_diet_opt :: "json \<Rightarrow> diet option option" where
  "parse_diet_opt j =
     (case j of
        JUndefined \<Rightarrow> Some None
      | JStr s \<Rightarrow>
          (if s = ''nonveg'' then Some (Some Nonveg)
           else if s = ''veg'' then Some (Some Veg)
           else if s = ''vegan'' then Some (Some Vegan)
           else None)
      | _ \<Rightarrow> None)"

text \<open>\<open>z.string().optional()\<close>\<close>

definition parse_string_opt :: "json \<Rightarrow> string option option" where
  "parse_string_opt j =
     (case j of JUndefined \<Rightarrow> Some None | JStr s \<Rightarrow> Some (Some s) | _ \<Rightarrow> None)"

text \<open>\<open>z.number().min(0).max(5).default(0)\<close>\<close>

definition parse_companions :: "json \<Rightarrow> rat option" where
  "parse_companions j =
     (case j of
        JUndefined \<Rightarrow> Some 0
      | JNum q \<Rightarrow> (if 0 \<le> q \<and> q \<le> 5 then Some q else None)
      | _ \<Rightarrow> None)"

section \<open>routes/rsvps.ts\<close>

text \<open>
  The router that index.ts mounts as \<open>./routes/rsvps\<close> (src/unnamed/part_000).  A
  handler is modelled from the point where its middleware has let the request through:
  \<open>uid\<close> is the authenticated administrator, \<open>now\<close> the time of the request and
  \<open>nid\<close> the identifier given to a document the request creates.  A handler returns
  its answer (\<open>Inl\<close> an error response, \<open>Inr\<close> the payload of a success) and the
  database after it; the human-readable message strings of the answers are left out.
\<close>

record rsvp_body =
  b_status :: json

record token_rsvp_body =
  tb_status :: json
  tb_companions :: json
  tb_guestName :: json
  tb_dietaryPreference :: json
  tb_companionDietaryPreference :: json

record token_rsvp_validated =
  v_status :: rsvp_status
  v_companions :: rat
  v_guestName :: "string option"
  v_dietaryPreference :: "diet option"
  v_companionDietaryPreference :: "diet option"

text \<open>\<open>rsvpSchema.parse\<close>: a \<open>ZodError\<close> is answered with 400.\<close>

definition rsvpSchema :: "rsvp_body \<Rightarrow> error + rsvp_status" where
  "rsvpSchema b =
     (case parse_status3 (b_status b) of None \<Rightarrow> Inl ValidationError | Some st \<Rightarrow> Inr st)"

text \<open>\<open>tokenRsvpSchema.parse\<close>\<close>

definition tokenRsvpSchema :: "token_rsvp_body \<Rightarrow> error + token_rsvp_validated" where
  "tokenRsvpSchema b =
     (case (parse_status2 (tb_status b), parse_companions (tb_companions b),
            parse_string_opt (tb_guestName b), parse_diet_opt (tb_dietaryPreference b),
            parse_diet_opt (tb_companionDietaryPreference b)) of
        (Some st, Some c, Some g, Some d, Some cd) \<Rightarrow>
          Inr \<lparr>v_status = st, v_companions = c, v_guestName = g,
               v_dietaryPreference = d, v_companionDietaryPreference = cd\<rparr>
      | _ \<Rightarrow> Inl ValidationError)"

text \<open>\<open>Event.findOne({ _id: eventId, createdBy: user })\<close>\<close>

definition findOwnedEvent :: "oid \<Rightarrow> oid \<Rightarrow> db \<Rightarrow> event_doc option" where
  "findOwnedEvent uid eid s = find (\<lambda>e. e_id e = eid \<and> e_createdBy e = uid) (events s)"

subsection \<open>GET /event/:eventId/dietary-stats\<close>

record stats =
  nonveg :: nat
  veg :: nat
  vegan :: nat
  notSpecified :: nat

definition bump :: "diet option \<Rightarrow> stats \<Rightarrow> stats" where
  "bump p st =
     (if p = Some Nonveg then st\<lparr>nonveg := nonveg st + 1\<rparr>
      else if p = Some Veg then st\<lparr>veg := veg st + 1\<rparr>
      else if p = Some Vegan then st\<lparr>vegan := vegan st + 1\<rparr>
      else st\<lparr>notSpecified := notSpecified st + 1\<rparr>)"

text \<open>\<open>rsvp.companions > 0\<close>; the comparison is false on a missing field.\<close>

definition has_companion :: "rsvp_doc \<Rightarrow> bool" where
  "has_companion r = (case r_companions r of None \<Rightarrow> False | Some c \<Rightarrow> 0 < c)"

text \<open>The body of the \<open>forEach\<close> callback.\<close>

definition count_rsvp :: "stats \<Rightarrow> rsvp_doc \<Rightarrow> stats" where
  "count_rsvp st r =
     (let st1 = bump (r_dietaryPreference r) st
      in if has_companion r then bump (r_companionDietaryPreference r) st1 else st1)"

definition goingRsvps :: "oid \<Rightarrow> db \<Rightarrow> rsvp_doc list" where
  "goingRsvps eid s = filter (\<lambda>r. r_eventId r = eid \<and> r_status r = Going) (rsvps s)"

definition dietaryStats :: "oid \<Rightarrow> oid \<Rightarrow> db \<Rightarrow> error + stats" where
  "dietaryStats uid eid s =
     (case findOwnedEvent uid eid s of
        None \<Rightarrow> Inl EventNotFound
      | Some event \<Rightarrow>
          Inr (foldl count_rsvp \<lparr>nonveg = 0, veg = 0, vegan = 0, notSpecified = 0\<rparr>
                 (goingRsvps eid s)))"

subsection \<open>POST /:eventId (authenticated user)\<close>

fun update_first :: "('a \<Rightarrow> bool) \<Rightarrow> ('a \<Rightarrow> 'a) \<Rightarrow> 'a list \<Rightarrow> 'a list" where
  "update_first P f [] = []"
| "update_first P f (x # xs) = (if P x then f x # xs else x # update_first P f xs)"

text \<open>
  \<open>RSVP.findOneAndUpdate({eventId, userId}, {eventId, userId, status}, {upsert: true,
  new: true})\<close>: the first matching document gets the three paths set; with no match a
  document is inserted with the schema default for \<open>companions\<close>.  The result is the
  document after the write and the collection.
\<close>

definition upsertUserRsvp ::
  "oid \<Rightarrow> oid \<Rightarrow> rsvp_status \<Rightarrow> int \<Rightarrow> oid \<Rightarrow> rsvp_doc list \<Rightarrow> rsvp_doc \<times> rsvp_doc list" where
  "upsertUserRsvp uid eid st now nid rs =
     (let matches = (\<lambda>r. r_eventId r = eid \<and> r_userId r = Some uid);
          write = (\<lambda>r. r\<lparr>r_eventId := eid, r_userId := Some uid, r_status := st,
                           r_updatedAt := now\<rparr>)
      in case find matches rs of
           Some r \<Rightarrow> (write r, update_first matches write rs)
         | None \<Rightarrow>
             (let r = \<lparr>r_id = nid, r_eventId = eid, r_userId = Some uid, r_tokenId = None,
                       r_status = st, r_companions = Some 0, r_guestName = None,
                       r_guestEmail = None, r_dietaryPreference = None,
                       r_companionDietaryPreference = None,
                       r_createdAt = now, r_updatedAt = now\<rparr>
              in (r, rs @ [r])))"

definition submitUserRsvp ::
  "oid \<Rightarrow> oid \<Rightarrow> rsvp_body \<Rightarrow> int \<Rightarrow> oid \<Rightarrow> db \<Rightarrow> (error + rsvp_doc) \<times> db" where
  "submitUserRsvp uid eid body now nid s =
     (case rsvpSchema body of
        Inl e \<Rightarrow> (Inl e, s)
      | Inr st \<Rightarrow>
          (case findOwnedEvent uid eid s of
             None \<Rightarrow> (Inl EventNotFound, s)
           | Some event \<Rightarrow>
               (let (r, rs) = upsertUserRsvp uid eid st now nid (rsvps s)
                in (Inr r, s\<lparr>rsvps := rs\<rparr>))))"

subsection \<open>POST /token/:token (public)\<close>

text \<open>\<open>rsvp.companions || 0\<close>\<close>

definition or_zero :: "rat option \<Rightarrow> rat" where
  "or_zero c = (case c of None \<Rightarrow> 0 | Some q \<Rightarrow> q)"

text \<open>\<open>rsvps.reduce((sum, rsvp) => sum + 1 + (rsvp.companions || 0), 0)\<close>\<close>

definition currentAttendees :: "rsvp_doc list \<Rightarrow> rat" where
  "currentAttendees rs = foldl (\<lambda>sum r. sum + 1 + or_zero (r_companions r)) 0 rs"

text \<open>\<open>validated.guestName || tokenDoc.name\<close>: an empty string is falsy.\<close>

definition or_name :: "string option \<Rightarrow> string option \<Rightarrow> string option" where
  "or_name g n = (case g of None \<Rightarrow> n | Some x \<Rightarrow> if x = [] then n else Some x)"

text \<open>\<open>validated.guestName && validated.guestName.trim()\<close>\<close>

definition name_given :: "string option \<Rightarrow> bool" where
  "name_given g = (case g of None \<Rightarrow> False | Some x \<Rightarrow> x \<noteq> [] \<and> trim x \<noteq> [])"

record token_rsvp_ok =
  ok_id :: oid
  ok_status :: rsvp_status
  ok_companions :: rat
  ok_totalAttendees :: rat

text \<open>\<open>RSVP.findOne({ tokenId: tokenDoc._id, eventId: tokenDoc.eventId })\<close>\<close>

definition findTokenRsvp :: "token_doc \<Rightarrow> db \<Rightarrow> rsvp_doc option" where
  "findTokenRsvp t s =
     find (\<lambda>r. r_tokenId r = Some (tk_id t) \<and> r_eventId r = tk_eventId t) (rsvps s)"

text \<open>The document \<open>RSVP.create(rsvpData)\<close> stores, after the schema's setters.\<close>

definition tokenRsvpDoc :: "token_doc \<Rightarrow> token_rsvp_validated \<Rightarrow> int \<Rightarrow> oid \<Rightarrow> rsvp_doc" where
  "tokenRsvpDoc t v now nid =
     \<lparr>r_id = nid, r_eventId = tk_eventId t, r_userId = None, r_tokenId = Some (tk_id t),
      r_status = v_status v, r_companions = Some (v_companions v),
      r_guestName = map_option trim (or_name (v_guestName v) (tk_name t)),
      r_guestEmail = Some (trim (toLowerCase (tk_email t))),
      r_dietaryPreference = v_dietaryPreference v,
      r_companionDietaryPreference = v_companionDietaryPreference v,
      r_createdAt = now, r_updatedAt = now\<rparr>"

text \<open>\<open>Token.findByIdAndUpdate(tokenDoc._id, { name: validated.guestName.trim() })\<close>\<close>

definition renameToken :: "oid \<Rightarrow> string \<Rightarrow> int \<Rightarrow> token_doc list \<Rightarrow> token_doc list" where
  "renameToken tid n now ts =
     update_first (\<lambda>t. tk_id t = tid) (\<lambda>t. t\<lparr>tk_name := Some n, tk_updatedAt := now\<rparr>) ts"

text \<open>
  The writes of a successful submission: the created response, and the guest's name
  copied to the token when one was given.
\<close>

definition tokenRsvpState :: "token_doc \<Rightarrow> token_rsvp_validated \<Rightarrow> int \<Rightarrow> oid \<Rightarrow> db \<Rightarrow> db" where
  "tokenRsvpState t v now nid s =
     s\<lparr>rsvps := rsvps s @ [tokenRsvpDoc t v now nid],
       tokens := (if name_given (v_guestName v)
                  then renameToken (tk_id t)
                         (trim (case v_guestName v of Some x \<Rightarrow> x | None \<Rightarrow> [])) now (tokens s)
                  else tokens s)\<rparr>"

definition submitTokenRsvp ::
  "string \<Rightarrow> token_rsvp_body \<Rightarrow> int \<Rightarrow> oid \<Rightarrow> db \<Rightarrow> (error + token_rsvp_ok) \<times> db" where
  "submitTokenRsvp tok body now nid s =
     (case tokenRsvpSchema body of
        Inl e \<Rightarrow> (Inl e, s)
      | Inr v \<Rightarrow>
     (case find (\<lambda>t. tk_token t = tok) (tokens s) of
        None \<Rightarrow> (Inl InvalidToken, s)
      | Some tokenDoc \<Rightarrow>
     (case find (\<lambda>e. e_id e = tk_eventId tokenDoc) (events s) of
        None \<Rightarrow> (Inl EventNotFound, s)
      | Some event \<Rightarrow>
     (case findTokenRsvp tokenDoc s of
        Some existingRsvp \<Rightarrow>
          (Inl (AlreadyResponded (r_status existingRsvp) (or_zero (r_companions existingRsvp))
                  (r_createdAt existingRsvp)), s)
      | None \<Rightarrow>
          (let totalAttendees = (if v_status v = Going then 1 + v_companions v else 0);
               full =
                 (if v_status v = Going
                  then (let current = currentAttendees (goingRsvps (tk_eventId tokenDoc) s)
                        in if current + totalAttendees > e_capacity event
                           then Some (e_capacity event - current) else None)
                  else None)
           in case full of
                Some availableSpots \<Rightarrow> (Inl (EventFull availableSpots), s)
              | None \<Rightarrow>
                  (let rsvp = tokenRsvpDoc tokenDoc v now nid
                   in (Inr \<lparr>ok_id = r_id rsvp, ok_status = r_status rsvp,
                             ok_companions = or_zero (r_companions rsvp),
                             ok_totalAttendees = totalAttendees\<rparr>,
                       tokenRsvpState tokenDoc v now nid s)))))))"

subsection \<open>DELETE /cleanup-orphaned\<close>

text \<open>\<open>RSVP.deleteMany({ userId: null })\<close> matches a missing field too.\<close>

definition cleanupOrphaned :: "db \<Rightarrow> nat \<times> db" where
  "cleanupOrphaned s =
     (length (filter (\<lambda>r. r_userId r = None) (rsvps s)),
      s\<lparr>rsvps := filter (\<lambda>r. r_userId r \<noteq> None) (rsvps s)\<rparr>)"

section \<open>routes/tokens.ts\<close>

subsection \<open>GET /:eventId (invitee list)\<close>

















subsection \<open>POST /:eventId (create token, send invitation)\<close>

record token_body =
  kb_email :: json
  kb_name :: json

text \<open>
  \<open>tokenSchema.parse\<close>; the test of \<open>z.string().email()\<close> is the library's and is
  the parameter \<open>is_email\<close>.  The address is lowercased and trimmed after the test.
\<close>

definition tokenSchema ::
  "(string \<Rightarrow> bool) \<Rightarrow> token_body \<Rightarrow> error + string \<times> string option" where
  "tokenSchema is_email b =
     (case (kb_email b, parse_string_opt (kb_name b)) of
        (JStr e, Some n) \<Rightarrow>
          if is_email e then Inr (trim (toLowerCase e), n) else Inl ValidationError
      | _ \<Rightarrow> Inl ValidationError)"

text \<open>
  \<open>sendEmail\<close> of services/emailService.ts: it throws when the service is not
  configured, and otherwise returns what the transport does (\<open>Inl\<close> a thrown error's
  message, \<open>Inr\<close> the message id), logging a success.
\<close>

definition sendEmail :: "bool \<Rightarrow> string + string \<Rightarrow> (string + string) \<times> string list" where
  "sendEmail configured transport =
     (if \<not> configured then (Inl ''Email service not configured'', [])
      else case transport of
             Inl err \<Rightarrow> (Inl err, [])
           | Inr messageId \<Rightarrow> (Inr messageId, [''Email sent successfully: '' @ messageId]))"

record token_created =
  c_id :: oid
  c_email :: string
  c_name :: "string option"
  c_token :: string
  c_rsvpStatus :: "rsvp_status option"
  c_emailSent :: bool

text \<open>
  \<open>configured\<close> is \<open>isEmailServiceConfigured()\<close> (two environment variables),
  \<open>transport\<close> what the mail transport does with the message, \<open>tok\<close> the output of
  \<open>generateToken()\<close>.  \<open>Token.create\<close> fails on an empty address (a required path)
  and on a token string already stored (unique index); both end in the generic 500.
  The lookup of the email template and the rendering of the message do not bear on the
  answer and are left out.  The third component is the console log.
\<close>

definition createToken ::
  "(string \<Rightarrow> bool) \<Rightarrow> bool \<Rightarrow> string + string \<Rightarrow> string \<Rightarrow> oid \<Rightarrow> oid \<Rightarrow> token_body \<Rightarrow>
   int \<Rightarrow> oid \<Rightarrow> db \<Rightarrow> (error + token_created) \<times> db \<times> string list" where
  "createToken is_email configured transport tok uid eid body now nid s =
     (case tokenSchema is_email body of
        Inl e \<Rightarrow> (Inl e, s, [])
      | Inr (email, name) \<Rightarrow>
     (case findOwnedEvent uid eid s of
        None \<Rightarrow> (Inl EventNotFound, s, [])
      | Some event \<Rightarrow>
          if trim (toLowerCase email) = [] \<or> tok \<in> set (map tk_token (tokens s))
          then (Inl InternalError, s, [])
          else
            (let tokenDoc = \<lparr>tk_id = nid, tk_eventId = eid, tk_email = trim (toLowerCase email),
                             tk_name = map_option trim name, tk_token = tok,
                             tk_createdAt = now, tk_updatedAt = now\<rparr>;
                 logged = (if configured
                        then (case sendEmail configured transport of
                                (Inl emailError, l) \<Rightarrow>
                                  l @ [''Failed to send invitation email: '' @ emailError]
                              | (Inr sent, l) \<Rightarrow> l)
                        else [])
             in (Inr \<lparr>c_id = tk_id tokenDoc, c_email = tk_email tokenDoc,
                       c_name = tk_name tokenDoc, c_token = tk_token tokenDoc,
                       c_rsvpStatus = None, c_emailSent = configured\<rparr>,
                 s\<lparr>tokens := tokens s @ [tokenDoc]\<rparr>, logged))))"

section \<open>routes/events.ts\<close>

text \<open>The router that index.ts mounts as \<open>./routes/events\<close> (src/unnamed/part_001).\<close>

record event_body =
  eb_title :: json
  eb_description :: json
  eb_date :: json
  eb_location :: json
  eb_category :: json
  eb_capacity :: json
  eb_allowedCompanions :: json
  eb_hostName :: json
  eb_hostMobile :: json
  eb_hostEmail :: json

record event_validated =
  ev_title :: string
  ev_description :: "string option"
  ev_date :: string
  ev_location :: string
  ev_category :: string
  ev_capacity :: rat
  ev_allowedCompanions :: rat
  ev_hostName :: string
  ev_hostMobile :: string
  ev_hostEmail :: string

text \<open>\<open>z.string().min(lo).max(hi)\<close>; \<open>hi = None\<close> is no upper bound.\<close>

definition parse_string_range :: "nat \<Rightarrow> nat option \<Rightarrow> json \<Rightarrow> string option" where
  "parse_string_range lo hi j =
     (case j of
        JStr x \<Rightarrow>
          (if lo \<le> length x \<and> (case hi of None \<Rightarrow> True | Some h \<Rightarrow> length x \<le> h)
           then Some x else None)
      | _ \<Rightarrow> None)"

text \<open>\<open>z.string().max(2000).optional()\<close>\<close>

definition parse_description :: "json \<Rightarrow> string option option" where
  "parse_description j =
     (case j of
        JUndefined \<Rightarrow> Some None
      | JStr x \<Rightarrow> (if length x \<le> 2000 then Some (Some x) else None)
      | _ \<Rightarrow> None)"

text \<open>\<open>Number.isInteger\<close>\<close>

definition is_integer :: "rat \<Rightarrow> bool" where
  "is_integer q = (of_int \<lfloor>q\<rfloor> = q)"

text \<open>\<open>z.number().int().min(10)\<close>\<close>

definition parse_capacity :: "json \<Rightarrow> rat option" where
  "parse_capacity j =
     (case j of
        JNum q \<Rightarrow> (if is_integer q \<and> 10 \<le> q then Some q else None)
      | _ \<Rightarrow> None)"

text \<open>\<open>z.number().int().min(0).max(10).default(0)\<close>\<close>

definition parse_allowedCompanions :: "json \<Rightarrow> rat option" where
  "parse_allowedCompanions j =
     (case j of
        JUndefined \<Rightarrow> Some 0
      | JNum q \<Rightarrow> (if is_integer q \<and> 0 \<le> q \<and> q \<le> 10 then Some q else None)
      | _ \<Rightarrow> None)"

text \<open>
  \<open>eventSchema.parse\<close>.  The tests of \<open>z.string().email()\<close> and
  \<open>z.string().datetime()\<close> are the library's: the parameters \<open>is_email\<close> and
  \<open>is_datetime\<close>.
\<close>

definition eventSchema ::
  "(string \<Rightarrow> bool) \<Rightarrow> (string \<Rightarrow> bool) \<Rightarrow> event_body \<Rightarrow> error + event_validated" where
  "eventSchema is_email is_datetime b =
     (case (parse_string_range 1 (Some 200) (eb_title b), parse_description (eb_description b),
            parse_string_range 0 None (eb_date b),
            parse_string_range 1 (Some 200) (eb_location b),
            parse_string_range 1 None (eb_category b),
            parse_capacity (eb_capacity b), parse_allowedCompanions (eb_allowedCompanions b),
            parse_string_range 1 (Some 100) (eb_hostName b),
            parse_string_range 1 (Some 20) (eb_hostMobile b),
            parse_string_range 0 (Some 100) (eb_hostEmail b)) of
        (Some title, Some description, Some date, Some location, Some category,
         Some capacity, Some allowed, Some hostName, Some hostMobile, Some hostEmail) \<Rightarrow>
          if is_datetime date \<and> is_email hostEmail
          then Inr \<lparr>ev_title = title, ev_description = description, ev_date = date,
                    ev_location = location, ev_category = category, ev_capacity = capacity,
                    ev_allowedCompanions = allowed, ev_hostName = hostName,
                    ev_hostMobile = hostMobile, ev_hostEmail = hostEmail\<rparr>
          else Inl ValidationError
      | _ \<Rightarrow> Inl ValidationError)"

text \<open>\<open>validated.description || ''\<close>\<close>

definition or_empty :: "string option \<Rightarrow> string" where
  "or_empty d = (case d of None \<Rightarrow> [] | Some x \<Rightarrow> x)"

text \<open>
  The paths a write of the validated body sets, after the setters of models/Event.ts
  (\<open>trim\<close>, \<open>lowercase\<close>); \<open>allowedCompanions\<close> is not a path of that schema.
\<close>

definition writeEvent :: "event_validated \<Rightarrow> int \<Rightarrow> event_doc \<Rightarrow> event_doc" where
  "writeEvent v eventDate e =
     e\<lparr>e_title := trim (ev_title v), e_description := trim (or_empty (ev_description v)),
       e_date := eventDate, e_location := trim (ev_location v),
       e_category := trim (ev_category v), e_capacity := ev_capacity v,
       e_hostName := trim (ev_hostName v), e_hostMobile := trim (ev_hostMobile v),
       e_hostEmail := trim (toLowerCase (ev_hostEmail v))\<rparr>"

text \<open>The validators of models/Event.ts, run by \<open>Event.create\<close>.\<close>

definition validEventDoc :: "event_doc \<Rightarrow> bool" where
  "validEventDoc e =
     (e_title e \<noteq> [] \<and> length (e_title e) \<le> 200 \<and> length (e_description e) \<le> 2000 \<and>
      e_location e \<noteq> [] \<and> length (e_location e) \<le> 200 \<and> e_category e \<noteq> [] \<and>
      1 \<le> e_capacity e \<and>
      e_hostName e \<noteq> [] \<and> length (e_hostName e) \<le> 100 \<and>
      e_hostMobile e \<noteq> [] \<and> length (e_hostMobile e) \<le> 20 \<and>
      e_hostEmail e \<noteq> [] \<and> length (e_hostEmail e) \<le> 100)"

text \<open>
  POST /: \<open>parse_date\<close> is \<open>new Date(validated.date)\<close>; a validator that fails
  makes \<open>Event.create\<close> throw, which ends in the generic 500.
\<close>

definition createEvent ::
  "(string \<Rightarrow> bool) \<Rightarrow> (string \<Rightarrow> bool) \<Rightarrow> (string \<Rightarrow> int) \<Rightarrow> oid \<Rightarrow> event_body \<Rightarrow> int \<Rightarrow> oid \<Rightarrow>
   db \<Rightarrow> (error + event_doc) \<times> db" where
  "createEvent is_email is_datetime parse_date uid body now nid s =
     (case eventSchema is_email is_datetime body of
        Inl e \<Rightarrow> (Inl e, s)
      | Inr v \<Rightarrow>
          (let eventDate = parse_date (ev_date v)
           in if eventDate < now then (Inl PastDate, s)
              else
                (let event = writeEvent v eventDate
                       \<lparr>e_id = nid, e_title = [], e_description = [], e_date = eventDate,
                        e_location = [], e_category = [], e_capacity = 0, e_hostName = [],
                        e_hostMobile = [], e_hostEmail = [], e_createdBy = uid\<rparr>
                 in if validEventDoc event
                    then (Inr event, s\<lparr>events := events s @ [event]\<rparr>)
                    else (Inl InternalError, s))))"

text \<open>PUT /:id: \<open>Event.findOneAndUpdate\<close> runs the setters, not the validators.\<close>

definition updateEvent ::
  "(string \<Rightarrow> bool) \<Rightarrow> (string \<Rightarrow> bool) \<Rightarrow> (string \<Rightarrow> int) \<Rightarrow> oid \<Rightarrow> oid \<Rightarrow> event_body \<Rightarrow> int \<Rightarrow>
   db \<Rightarrow> (error + event_doc) \<times> db" where
  "updateEvent is_email is_datetime parse_date uid eid body now s =
     (case eventSchema is_email is_datetime body of
        Inl e \<Rightarrow> (Inl e, s)
      | Inr v \<Rightarrow>
          (let eventDate = parse_date (ev_date v)
           in if eventDate < now then (Inl PastDate, s)
              else
                (case findOwnedEvent uid eid s of
                   None \<Rightarrow> (Inl EventNotFound, s)
                 | Some old \<Rightarrow>
                     (Inr (writeEvent v eventDate old),
                      s\<lparr>events :=
                          update_first (\<lambda>e. e_id e = eid \<and> e_createdBy e = uid)
                            (writeEvent v eventDate) (events s)\<rparr>))))"

section \<open>The requests that write to the database\<close>

datatype request =
    PostUserRsvp oid oid rsvp_body int oid
  | PostTokenRsvp string token_rsvp_body int oid
  | DeleteOrphaned
  | PostToken bool "string + string" string oid oid token_body int oid
  | PostEvent oid event_body int oid
  | PutEvent oid oid event_body int

fun step ::
  "(string \<Rightarrow> bool) \<Rightarrow> (string \<Rightarrow> bool) \<Rightarrow> (string \<Rightarrow> int) \<Rightarrow> request \<Rightarrow> db \<Rightarrow> db" where
  "step is_email is_datetime parse_date (PostUserRsvp uid eid body now nid) s =
     snd (submitUserRsvp uid eid body now nid s)"
| "step is_email is_datetime parse_date (PostTokenRsvp tok body now nid) s =
     snd (submitTokenRsvp tok body now nid s)"
| "step is_email is_datetime parse_date DeleteOrphaned s = snd (cleanupOrphaned s)"
| "step is_email is_datetime parse_date (PostToken configured transport tok uid eid body now nid) s =
     fst (snd (createToken is_email configured transport tok uid eid body now nid s))"
| "step is_email is_datetime parse_date (PostEvent uid body now nid) s =
     snd (createEvent is_email is_datetime parse_date uid body now nid s)"
| "step is_email is_datetime parse_date (PutEvent uid eid body now) s =
     snd (updateEvent is_email is_datetime parse_date uid eid body now s)"

fun run ::
  "(string \<Rightarrow> bool) \<Rightarrow> (string \<Rightarrow> bool) \<Rightarrow> (string \<Rightarrow> int) \<Rightarrow> request list \<Rightarrow> db \<Rightarrow> db" where
  "run is_email is_datetime parse_date [] s = s"
| "run is_email is_datetime parse_date (r # rs) s =
     run is_email is_datetime parse_date rs (step is_email is_datetime parse_date r s)"

section \<open>Notions used by the statements\<close>

text \<open>The counter of a preference (\<open>None\<close> is "not specified").\<close>

definition bucket_of :: "diet option \<Rightarrow> stats \<Rightarrow> nat" where
  "bucket_of p st =
     (case p of None \<Rightarrow> notSpecified st | Some Nonveg \<Rightarrow> nonveg st | Some Veg \<Rightarrow> veg st
      | Some Vegan \<Rightarrow> vegan st)"

text \<open>
  How often a list of responses credits a preference: once per primary attendee who has
  it, once per response with a companion whose companion preference is it.
\<close>

definition credited :: "diet option \<Rightarrow> rsvp_doc list \<Rightarrow> nat" where
  "credited p rs =
     length (filter (\<lambda>r. r_dietaryPreference r = p) rs) +
     length (filter (\<lambda>r. has_companion r \<and> r_companionDietaryPreference r = p) rs)"

text \<open>Exactly one of the two identity fields is set.\<close>

definition identity_ok :: "rsvp_doc \<Rightarrow> bool" where
  "identity_ok r = ((r_userId r = None) \<noteq> (r_tokenId r = None))"

definition rsvp_identity_inv :: "db \<Rightarrow> bool" where
  "rsvp_identity_inv s = list_all identity_ok (rsvps s)"

definition capacity_inv :: "db \<Rightarrow> bool" where
  "capacity_inv s = list_all (\<lambda>e. is_integer (e_capacity e) \<and> 10 \<le> e_capacity e) (events s)"





section \<open>Example data\<close>

definition empty_db :: db where
  "empty_db = \<lparr>events = [], tokens = [], users = [], rsvps = []\<rparr>"

definition launch_body :: "rat \<Rightarrow> event_body" where
  "launch_body cap =
     \<lparr>eb_title = JStr ''Launch'', eb_description = JUndefined,
      eb_date = JStr ''2030-01-01T00:00:00Z'', eb_location = JStr ''Hall'',
      eb_category = JStr ''party'', eb_capacity = JNum cap, eb_allowedCompanions = JUndefined,
      eb_hostName = JStr ''Ann'', eb_hostMobile = JStr ''555'',
      eb_hostEmail = JStr ''Ann@x.io''\<rparr>"

definition launch_event :: "rat \<Rightarrow> event_doc" where
  "launch_event cap =
     \<lparr>e_id = 1, e_title = ''Launch'', e_description = [], e_date = 5000, e_location = ''Hall'',
      e_category = ''party'', e_capacity = cap, e_hostName = ''Ann'', e_hostMobile = ''555'',
      e_hostEmail = ''ann@x.io'', e_createdBy = 7\<rparr>"

definition invite_body :: "string \<Rightarrow> token_body" where
  "invite_body e = \<lparr>kb_email = JStr e, kb_name = JUndefined\<rparr>"

definition guest_body :: "string \<Rightarrow> rat \<Rightarrow> json \<Rightarrow> json \<Rightarrow> json \<Rightarrow> token_rsvp_body" where
  "guest_body st c n d cd =
     \<lparr>tb_status = JStr st, tb_companions = JNum c, tb_guestName = n,
      tb_dietaryPreference = d, tb_companionDietaryPreference = cd\<rparr>"

definition reply_body :: "string \<Rightarrow> rat \<Rightarrow> token_rsvp_body" where
  "reply_body st c = guest_body st c JUndefined JUndefined JUndefined"


definition invitation :: "oid \<Rightarrow> string \<Rightarrow> string \<Rightarrow> int \<Rightarrow> token_doc" where
  "invitation i e tok sent =
     \<lparr>tk_id = i, tk_eventId = 1, tk_email = e, tk_name = None, tk_token = tok,
      tk_createdAt = sent, tk_updatedAt = sent\<rparr>"

text \<open>The library tests accept everything here; every date parses to 5000.\<close>

definition replay :: "request list \<Rightarrow> db" where
  "replay reqs = run (\<lambda>e. True) (\<lambda>d. True) (\<lambda>d. 5000) reqs empty_db"

text \<open>An event of capacity 15 with two accepted parties of six.\<close>

definition busy_history :: "request list" where
  "busy_history =
     [PostEvent 7 (launch_body 15) 1000 1,
      PostToken False (Inr []) ''aa'' 7 1 (invite_body ''a@x.io'') 1001 11,
      PostToken False (Inr []) ''bb'' 7 1 (invite_body ''b@x.io'') 1002 12,
      PostToken False (Inr []) ''cc'' 7 1 (invite_body ''c@x.io'') 1003 13,
      PostTokenRsvp ''aa'' (reply_body ''going'' 5) 1004 21,
      PostTokenRsvp ''bb'' (reply_body ''going'' 5) 1005 22]"

definition busy_db :: db where
  "busy_db = replay busy_history"

text \<open>The organizer then lowers the capacity to 10.\<close>

definition lowered_db :: db where
  "lowered_db = replay (busy_history @ [PutEvent 7 1 (launch_body 10) 1006])"

text \<open>
  An event of capacity 20 with four invitations, two guest responses and the
  organizer's own response; the organizer is registered under the address of the first
  and the third invitation.
\<close>

definition party_history :: "request list" where
  "party_history =
     [PostEvent 7 (launch_body 20) 1000 1,
      PostToken False (Inr []) ''aa'' 7 1 (invite_body ''A@x.io'') 1001 11,
      PostToken False (Inr []) ''bb'' 7 1 (invite_body ''b@x.io'') 1002 12,
      PostToken False (Inr []) ''cc'' 7 1 (invite_body ''a@x.io'') 1003 13,
      PostToken False (Inr []) ''dd'' 7 1 (invite_body ''d@x.io'') 1004 14,
      PostTokenRsvp ''aa'' (guest_body ''going'' 2 (JStr '' Al '') (JStr ''veg'') JUndefined)
        1005 21,
      PostTokenRsvp ''bb'' (guest_body ''not-going'' 1 JUndefined JUndefined (JStr ''vegan''))
        1006 22,
      PostUserRsvp 7 1 \<lparr>b_status = JStr ''going''\<rparr> 1007 23]"

definition party_db :: db where
  "party_db =
     (replay party_history)
       \<lparr>users := [\<lparr>u_id = 7, u_email = ''a@x.io''\<rparr>, \<lparr>u_id = 8, u_email = ''zed@x.io''\<rparr>]\<rparr>"



definition late_reply :: "string \<Rightarrow> rat \<Rightarrow> (error + token_rsvp_ok) \<times> db" where
  "late_reply st c = submitTokenRsvp ''dd'' (reply_body st c) 1008 24 party_db"

definition changed_mind :: rsvp_doc where
  "changed_mind =
     \<lparr>r_id = 23, r_eventId = 1, r_userId = Some 7, r_tokenId = None, r_status = Maybe,
      r_companions = Some 0, r_guestName = None, r_guestEmail = None,
      r_dietaryPreference = None, r_companionDietaryPreference = None,
      r_createdAt = 1007, r_updatedAt = 1008\<rparr>"

section \<open>Lists, first matches and maps\<close>

lemma find_Some_props: "find P xs = Some x \<Longrightarrow> P x \<and> x \<in> set xs"
  by (induction xs) (auto split: if_splits)





lemma list_all_update_first:
  "list_all Q xs \<Longrightarrow> (\<And>x. P x \<Longrightarrow> Q x \<Longrightarrow> Q (f x)) \<Longrightarrow> list_all Q (update_first P f xs)"
  by (induction xs) auto

lemma update_first_mem: "find P xs = Some x \<Longrightarrow> f x \<in> set (update_first P f xs)"
  by (induction xs) (auto split: if_splits)








section \<open>Dietary statistics\<close>

lemma bucket_of_bump: "bucket_of p (bump q st) = bucket_of p st + (if p = q then 1 else 0)"
proof (cases q)
  case None
  then show ?thesis
    by (cases p) (auto simp: bucket_of_def bump_def split: diet.splits)
next
  case (Some d)
  then show ?thesis
    by (cases d; cases p) (auto simp: bucket_of_def bump_def split: diet.splits)
qed

lemma bucket_of_count_rsvp:
  "bucket_of p (count_rsvp st r) =
     bucket_of p st + (if r_dietaryPreference r = p then 1 else 0) +
     (if has_companion r \<and> r_companionDietaryPreference r = p then 1 else 0)"
  by (auto simp: count_rsvp_def Let_def bucket_of_bump)

lemma bucket_of_foldl:
  "bucket_of p (foldl count_rsvp st rs) = bucket_of p st + credited p rs"
  by (induction rs arbitrary: st) (auto simp: bucket_of_count_rsvp credited_def)

lemma credited_total:
  "credited (Some Nonveg) rs + credited (Some Veg) rs + credited (Some Vegan) rs + credited None rs
     = length rs + length (filter has_companion rs)"
proof (induction rs)
  case Nil
  then show ?case by (simp add: credited_def)
next
  case (Cons r rs)
  have a: "r_dietaryPreference r \<in> {Some Nonveg, Some Veg, Some Vegan, None}"
    by (cases "r_dietaryPreference r") (auto intro: diet.exhaust)
  have b: "r_companionDietaryPreference r \<in> {Some Nonveg, Some Veg, Some Vegan, None}"
    by (cases "r_companionDietaryPreference r") (auto intro: diet.exhaust)
  from Cons a b show ?case by (auto simp: credited_def)
qed

text \<open>
  C5. For an event the caller owns, the statistics scan exactly the event's going
  responses.  Each bucket holds one count per primary attendee with that preference
  (\<open>notSpecified\<close> when it is absent) plus one per response with \<open>companions > 0\<close>
  whose companion preference is that bucket (\<open>notSpecified\<close> when absent); the four
  counts add up to the number of going responses plus the number of those with a
  companion.
\<close>

theorem dietary_stats_buckets:
  assumes "findOwnedEvent uid eid s = Some event"
  shows "\<exists>st. dietaryStats uid eid s = Inr st \<and>
           bucket_of p st = credited p (goingRsvps eid s) \<and>
           nonveg st + veg st + vegan st + notSpecified st =
             length (goingRsvps eid s) + length (filter has_companion (goingRsvps eid s)) \<and>
           set (goingRsvps eid s) = {r \<in> set (rsvps s). r_eventId r = eid \<and> r_status r = Going}"
proof -
  let ?z = "\<lparr>nonveg = 0, veg = 0, vegan = 0, notSpecified = 0\<rparr>"
  let ?st = "foldl count_rsvp ?z (goingRsvps eid s)"
  have z: "bucket_of q ?z = 0" for q
    by (cases q) (auto simp: bucket_of_def split: diet.splits)
  have b: "bucket_of q ?st = credited q (goingRsvps eid s)" for q
    by (simp add: bucket_of_foldl z)
  have "nonveg ?st + veg ?st + vegan ?st + notSpecified ?st =
          bucket_of (Some Nonveg) ?st + bucket_of (Some Veg) ?st + bucket_of (Some Vegan) ?st
            + bucket_of None ?st"
    by (simp add: bucket_of_def)
  also have "\<dots> = length (goingRsvps eid s) + length (filter has_companion (goingRsvps eid s))"
    unfolding b by (rule credited_total)
  finally have t: "nonveg ?st + veg ?st + vegan ?st + notSpecified ?st =
      length (goingRsvps eid s) + length (filter has_companion (goingRsvps eid s))" .
  have d: "dietaryStats uid eid s = Inr ?st"
    using assms by (simp add: dietaryStats_def)
  have g: "set (goingRsvps eid s) = {r \<in> set (rsvps s). r_eventId r = eid \<and> r_status r = Going}"
    by (auto simp: goingRsvps_def)
  from d b t g show ?thesis by blast
qed

text \<open>
  The party: two going responses, one of them with companions and no companion
  preference.
\<close>

theorem dietary_stats_buckets_witness:
  "findOwnedEvent 7 1 party_db = Some (launch_event 20) \<and>
   dietaryStats 7 1 party_db = Inr \<lparr>nonveg = 0, veg = 1, vegan = 0, notSpecified = 2\<rparr> \<and>
   (\<exists>st. dietaryStats 7 1 party_db = Inr st \<and>
      bucket_of None st = credited None (goingRsvps 1 party_db) \<and>
      nonveg st + veg st + vegan st + notSpecified st =
        length (goingRsvps 1 party_db) + length (filter has_companion (goingRsvps 1 party_db)) \<and>
      set (goingRsvps 1 party_db) = {r \<in> set (rsvps party_db). r_eventId r = 1 \<and> r_status r = Going})"
proof -
  have h: "findOwnedEvent 7 1 party_db = Some (launch_event 20)" by code_simp
  have v: "dietaryStats 7 1 party_db = Inr \<lparr>nonveg = 0, veg = 1, vegan = 0, notSpecified = 2\<rparr>"
    by code_simp
  from dietary_stats_buckets [OF h, of None] h v show ?thesis by blast
qed

section \<open>Responses by token\<close>











subsection \<open>The capacity check\<close>




subsection \<open>The attendee total of a submission\<close>



subsection \<open>Validation of a submission\<close>




subsection \<open>A second submission\<close>



section \<open>The identity of a response\<close>

lemma upsertUserRsvp_identity:
  assumes "list_all identity_ok rs" and "upsertUserRsvp uid eid st now nid rs = (r, rs')"
  shows "list_all identity_ok rs' \<and> r \<in> set rs' \<and> r_userId r = Some uid \<and> r_tokenId r = None"
proof (cases "find (\<lambda>r. r_eventId r = eid \<and> r_userId r = Some uid) rs")
  case None
  with assms show ?thesis
    by (auto simp: upsertUserRsvp_def Let_def identity_ok_def)
next
  case (Some x)
  let ?w = "\<lambda>r. r\<lparr>r_eventId := eid, r_userId := Some uid, r_status := st, r_updatedAt := now\<rparr>"
  from Some assms(2) have r: "r = ?w x"
    and rs': "rs' = update_first (\<lambda>r. r_eventId r = eid \<and> r_userId r = Some uid) ?w rs"
    by (auto simp: upsertUserRsvp_def Let_def)
  from find_Some_props [OF Some] have x: "r_userId x = Some uid" "x \<in> set rs" by auto
  with assms(1) have "identity_ok x" by (auto simp: list_all_iff)
  with x have "r_tokenId x = None" by (auto simp: identity_ok_def)
  moreover have "list_all identity_ok rs'"
    unfolding rs' by (rule list_all_update_first [OF assms(1)]) (auto simp: identity_ok_def)
  moreover have "r \<in> set rs'" unfolding r rs' by (rule update_first_mem [OF Some])
  ultimately show ?thesis by (simp add: r)
qed

lemma submitUserRsvp_identity:
  assumes "rsvp_identity_inv s"
  shows "rsvp_identity_inv (snd (submitUserRsvp uid eid body now nid s))"
proof (cases "upsertUserRsvp uid eid (case rsvpSchema body of Inr st \<Rightarrow> st | Inl e \<Rightarrow> Going) now nid (rsvps s)")
  case (Pair r rs')
  from upsertUserRsvp_identity [OF _ Pair] assms have "list_all identity_ok rs'"
    by (simp add: rsvp_identity_inv_def)
  with assms Pair show ?thesis
    by (auto simp: submitUserRsvp_def rsvp_identity_inv_def split: sum.splits option.splits)
qed

lemma submitTokenRsvp_identity:
  assumes "rsvp_identity_inv s"
  shows "rsvp_identity_inv (snd (submitTokenRsvp tok body now nid s))"
  using assms
  by (auto simp: submitTokenRsvp_def rsvp_identity_inv_def Let_def tokenRsvpState_def
      tokenRsvpDoc_def identity_ok_def split: sum.splits option.splits)

lemma cleanupOrphaned_identity:
  "rsvp_identity_inv s \<Longrightarrow> rsvp_identity_inv (snd (cleanupOrphaned s))"
  by (auto simp: cleanupOrphaned_def rsvp_identity_inv_def list_all_iff)

lemma createToken_rsvps:
  "rsvps (fst (snd (createToken ie configured transport tok uid eid body now nid s))) = rsvps s"
  by (auto simp: createToken_def Let_def split: sum.splits option.splits prod.splits)

lemma createEvent_rsvps:
  "rsvps (snd (createEvent ie idt pd uid body now nid s)) = rsvps s"
  by (auto simp: createEvent_def Let_def split: sum.splits)

lemma updateEvent_rsvps:
  "rsvps (snd (updateEvent ie idt pd uid eid body now s)) = rsvps s"
  by (auto simp: updateEvent_def Let_def split: sum.splits option.splits)

lemma step_identity:
  "rsvp_identity_inv s \<Longrightarrow> rsvp_identity_inv (step ie idt pd req s)"
proof (cases req)
  case (PostToken c tr tok uid eid body now nid)
  assume "rsvp_identity_inv s"
  then show ?thesis
    unfolding PostToken step.simps rsvp_identity_inv_def createToken_rsvps .
next
  case (PostEvent uid body now nid)
  assume "rsvp_identity_inv s"
  then show ?thesis
    unfolding PostEvent step.simps rsvp_identity_inv_def createEvent_rsvps .
next
  case (PutEvent uid eid body now)
  assume "rsvp_identity_inv s"
  then show ?thesis
    unfolding PutEvent step.simps rsvp_identity_inv_def updateEvent_rsvps .
qed (simp_all add: submitUserRsvp_identity submitTokenRsvp_identity cleanupOrphaned_identity)

lemma run_identity:
  "rsvp_identity_inv s \<Longrightarrow> rsvp_identity_inv (run ie idt pd reqs s)"
  by (induction reqs arbitrary: s) (simp_all add: step_identity)

text \<open>
  C3. When every stored response has exactly one of user and token identifier, every
  request that writes to the database, and so every sequence of them, keeps it so.  The
  response a user submission returns is stored, carries the user and no token; a
  token submission appends one response, which carries the token's identifier and no
  user.  Every database built from the empty one by requests has the property.
\<close>

theorem rsvp_identity_invariant:
  assumes "rsvp_identity_inv s"
  shows "rsvp_identity_inv (step ie idt pd req s) \<and>
         rsvp_identity_inv (run ie idt pd reqs s) \<and>
         (submitUserRsvp uid eid body now nid s = (Inr r, s') \<longrightarrow>
            r \<in> set (rsvps s') \<and> r_userId r = Some uid \<and> r_tokenId r = None) \<and>
         (submitTokenRsvp tok tbody now nid s = (Inr ok, s'') \<longrightarrow>
            (\<exists>t x. find (\<lambda>t. tk_token t = tok) (tokens s) = Some t \<and>
                   rsvps s'' = rsvps s @ [x] \<and> r_id x = ok_id ok \<and>
                   r_tokenId x = Some (tk_id t) \<and> r_userId x = None)) \<and>
         rsvp_identity_inv (run ie idt pd reqs empty_db)"
proof -
  have 1: "rsvp_identity_inv (step ie idt pd req s)" by (rule step_identity [OF assms])
  have 2: "rsvp_identity_inv (run ie idt pd reqs s)" by (rule run_identity [OF assms])
  have 3: "r \<in> set (rsvps s') \<and> r_userId r = Some uid \<and> r_tokenId r = None"
    if a: "submitUserRsvp uid eid body now nid s = (Inr r, s')"
  proof -
    from a obtain st rs' where u: "upsertUserRsvp uid eid st now nid (rsvps s) = (r, rs')"
      and s': "s' = s\<lparr>rsvps := rs'\<rparr>"
      by (auto simp: submitUserRsvp_def split: sum.splits option.splits prod.splits)
    from upsertUserRsvp_identity [OF _ u] assms show ?thesis
      by (simp add: rsvp_identity_inv_def s')
  qed
  have 4: "\<exists>t x. find (\<lambda>t. tk_token t = tok) (tokens s) = Some t \<and>
                   rsvps s'' = rsvps s @ [x] \<and> r_id x = ok_id ok \<and>
                   r_tokenId x = Some (tk_id t) \<and> r_userId x = None"
    if a: "submitTokenRsvp tok tbody now nid s = (Inr ok, s'')"
    using a
    by (auto simp: submitTokenRsvp_def Let_def tokenRsvpState_def tokenRsvpDoc_def
        split: sum.splits option.splits if_splits)
  have 5: "rsvp_identity_inv (run ie idt pd reqs empty_db)"
    by (rule run_identity) (simp add: rsvp_identity_inv_def empty_db_def)
  from 1 2 3 4 5 show ?thesis by blast
qed

text \<open>
  At the party the organizer changes the response to maybe and the fourth guest
  accepts.
\<close>

theorem rsvp_identity_invariant_witness:
  "rsvp_identity_inv party_db \<and>
   rsvp_identity_inv (step (\<lambda>e. True) (\<lambda>d. True) (\<lambda>d. 5000)
      (PostTokenRsvp ''dd'' (reply_body ''going'' 3) 1008 24) party_db) \<and>
   rsvp_identity_inv (run (\<lambda>e. True) (\<lambda>d. True) (\<lambda>d. 5000) party_history party_db) \<and>
   changed_mind \<in> set (rsvps (snd (submitUserRsvp 7 1 \<lparr>b_status = JStr ''maybe''\<rparr> 1008 24 party_db))) \<and>
   r_userId changed_mind = Some 7 \<and> r_tokenId changed_mind = None \<and>
   (\<exists>t x. find (\<lambda>t. tk_token t = ''dd'') (tokens party_db) = Some t \<and>
          rsvps (snd (late_reply ''going'' 3)) = rsvps party_db @ [x] \<and> r_id x = 24 \<and>
          r_tokenId x = Some (tk_id t) \<and> r_userId x = None)"
proof -
  let ?ok = "\<lparr>ok_id = 24, ok_status = Going, ok_companions = 3, ok_totalAttendees = 4\<rparr>"
  have h: "rsvp_identity_inv party_db" by code_simp
  have u: "submitUserRsvp 7 1 \<lparr>b_status = JStr ''maybe''\<rparr> 1008 24 party_db =
      (Inr changed_mind, snd (submitUserRsvp 7 1 \<lparr>b_status = JStr ''maybe''\<rparr> 1008 24 party_db))"
    by code_simp
  have g: "submitTokenRsvp ''dd'' (reply_body ''going'' 3) 1008 24 party_db =
      (Inr ?ok, snd (late_reply ''going'' 3))"
    by code_simp
  from rsvp_identity_invariant [OF h, where ie = "\<lambda>e. True" and idt = "\<lambda>d. True"
      and pd = "\<lambda>d. 5000" and req = "PostTokenRsvp ''dd'' (reply_body ''going'' 3) 1008 24"
      and reqs = party_history and uid = 7 and eid = 1 and body = "\<lparr>b_status = JStr ''maybe''\<rparr>"
      and now = 1008 and nid = 24 and r = changed_mind
      and s' = "snd (submitUserRsvp 7 1 \<lparr>b_status = JStr ''maybe''\<rparr> 1008 24 party_db)"
      and tok = "''dd''" and tbody = "reply_body ''going'' 3" and ok = ?ok
      and s'' = "snd (late_reply ''going'' 3)"] h u g
  show ?thesis by simp
qed

section \<open>Responses by a registered user\<close>





section \<open>The capacity of an event\<close>

lemma is_integer_iff: "is_integer q \<longleftrightarrow> q \<in> \<int>"
  unfolding is_integer_def
  by (metis Ints_of_int of_int_floor)

lemma parse_capacity_Some:
  "parse_capacity j = Some c \<longleftrightarrow> j = JNum c \<and> is_integer c \<and> 10 \<le> c"
  by (auto simp: parse_capacity_def split: json.splits)

lemma eventSchema_capacity:
  "eventSchema ie idt b = Inr v \<Longrightarrow> parse_capacity (eb_capacity b) = Some (ev_capacity v)"
  by (auto simp: eventSchema_def split: option.splits if_splits)

lemma eventSchema_reject:
  "parse_capacity (eb_capacity b) = None \<Longrightarrow> eventSchema ie idt b = Inl ValidationError"
  by (auto simp: eventSchema_def split: option.splits if_splits)

lemma writeEvent_capacity: "e_capacity (writeEvent v d e) = ev_capacity v"
  by (simp add: writeEvent_def)

lemma createEvent_Inr:
  assumes "createEvent ie idt pd uid body now nid s = (Inr e, s')"
  shows "\<exists>v. eventSchema ie idt body = Inr v \<and> e_capacity e = ev_capacity v \<and>
              events s' = events s @ [e]"
  using assms
  by (auto simp: createEvent_def Let_def writeEvent_capacity split: sum.splits if_splits)

lemma updateEvent_Inr:
  assumes "updateEvent ie idt pd uid eid body now s = (Inr e, s')"
  shows "\<exists>v old. eventSchema ie idt body = Inr v \<and> e_capacity e = ev_capacity v \<and>
           findOwnedEvent uid eid s = Some old \<and> e = writeEvent v (pd (ev_date v)) old \<and>
           events s' = update_first (\<lambda>e. e_id e = eid \<and> e_createdBy e = uid)
                         (writeEvent v (pd (ev_date v))) (events s)"
  using assms
  by (auto simp: updateEvent_def Let_def writeEvent_capacity split: sum.splits if_splits option.splits)

lemma createEvent_capacity_inv:
  "capacity_inv s \<Longrightarrow> capacity_inv (snd (createEvent ie idt pd uid body now nid s))"
proof (cases "createEvent ie idt pd uid body now nid s")
  case (Pair res s')
  assume inv: "capacity_inv s"
  show ?thesis
  proof (cases res)
    case (Inl err)
    with Pair have "s' = s"
      by (auto simp: createEvent_def Let_def split: sum.splits if_splits)
    with inv Pair show ?thesis by simp
  next
    case (Inr e)
    with Pair createEvent_Inr obtain v where v: "eventSchema ie idt body = Inr v"
      "e_capacity e = ev_capacity v" "events s' = events s @ [e]" by blast
    from eventSchema_capacity [OF v(1)] have "is_integer (ev_capacity v) \<and> 10 \<le> ev_capacity v"
      by (simp add: parse_capacity_Some)
    with inv v Pair show ?thesis by (simp add: capacity_inv_def)
  qed
qed

lemma updateEvent_capacity_inv:
  "capacity_inv s \<Longrightarrow> capacity_inv (snd (updateEvent ie idt pd uid eid body now s))"
proof (cases "updateEvent ie idt pd uid eid body now s")
  case (Pair res s')
  assume inv: "capacity_inv s"
  show ?thesis
  proof (cases res)
    case (Inl err)
    with Pair have "s' = s"
      by (auto simp: updateEvent_def Let_def split: sum.splits if_splits option.splits)
    with inv Pair show ?thesis by simp
  next
    case (Inr e)
    with Pair updateEvent_Inr obtain v where v: "eventSchema ie idt body = Inr v"
      and s': "events s' = update_first (\<lambda>e. e_id e = eid \<and> e_createdBy e = uid)
                         (writeEvent v (pd (ev_date v))) (events s)" by blast
    from eventSchema_capacity [OF v] have c: "is_integer (ev_capacity v) \<and> 10 \<le> ev_capacity v"
      by (simp add: parse_capacity_Some)
    have "list_all (\<lambda>e. is_integer (e_capacity e) \<and> 10 \<le> e_capacity e) (events s')"
      unfolding s' using inv c
      by (intro list_all_update_first) (simp_all add: capacity_inv_def writeEvent_capacity)
    with Pair show ?thesis by (simp add: capacity_inv_def)
  qed
qed

lemma submitUserRsvp_events: "events (snd (submitUserRsvp uid eid body now nid s)) = events s"
  by (auto simp: submitUserRsvp_def split: sum.splits option.splits prod.splits)

lemma submitTokenRsvp_events: "events (snd (submitTokenRsvp tok body now nid s)) = events s"
  by (auto simp: submitTokenRsvp_def Let_def tokenRsvpState_def split: sum.splits option.splits)

lemma createToken_events:
  "events (fst (snd (createToken ie configured transport tok uid eid body now nid s))) = events s"
  by (auto simp: createToken_def Let_def split: sum.splits option.splits prod.splits)

lemma step_capacity_inv:
  "capacity_inv s \<Longrightarrow> capacity_inv (step ie idt pd req s)"
proof (cases req)
  case (PostUserRsvp uid eid body now nid)
  assume "capacity_inv s"
  then show ?thesis
    unfolding PostUserRsvp step.simps capacity_inv_def submitUserRsvp_events .
next
  case (PostTokenRsvp tok body now nid)
  assume "capacity_inv s"
  then show ?thesis
    unfolding PostTokenRsvp step.simps capacity_inv_def submitTokenRsvp_events .
next
  case DeleteOrphaned
  assume "capacity_inv s"
  then show ?thesis
    unfolding DeleteOrphaned by (simp add: capacity_inv_def cleanupOrphaned_def)
next
  case (PostToken c tr tok uid eid body now nid)
  assume "capacity_inv s"
  then show ?thesis
    unfolding PostToken step.simps capacity_inv_def createToken_events .
qed (simp_all add: createEvent_capacity_inv updateEvent_capacity_inv)

lemma run_capacity_inv:
  "capacity_inv s \<Longrightarrow> capacity_inv (run ie idt pd reqs s)"
  by (induction reqs arbitrary: s) (simp_all add: step_capacity_inv)

text \<open>
  C10. The request schema accepts a capacity exactly when it is a number that is an
  integer and at least 10.  A request to create or to update an event with any other
  capacity is answered with the 400 validation error and changes nothing.  An event that
  a request creates or updates has an integer capacity of at least 10, so every event of
  a database built from the empty one by requests has; the bound of the model's own
  validator, 1, is weaker (5 passes it and is rejected by the schema).
\<close>

theorem event_capacity_minimum:
  "(parse_capacity (eb_capacity body) = None \<longrightarrow>
      createEvent ie idt pd uid body now nid s = (Inl ValidationError, s) \<and>
      updateEvent ie idt pd uid eid body now s = (Inl ValidationError, s) \<and>
      http_status ValidationError = 400) \<and>
   (parse_capacity j = None \<longleftrightarrow> (\<nexists>q. j = JNum q \<and> q \<in> \<int> \<and> 10 \<le> q)) \<and>
   (createEvent ie idt pd uid body now nid s = (Inr e, s') \<longrightarrow>
      e_capacity e \<in> \<int> \<and> 10 \<le> e_capacity e \<and> events s' = events s @ [e]) \<and>
   (updateEvent ie idt pd uid eid body now s = (Inr e, s') \<longrightarrow>
      e_capacity e \<in> \<int> \<and> 10 \<le> e_capacity e \<and> e \<in> set (events s')) \<and>
   (capacity_inv s \<longrightarrow> capacity_inv (run ie idt pd reqs s)) \<and>
   capacity_inv (run ie idt pd reqs empty_db) \<and>
   (validEventDoc d \<longrightarrow> 1 \<le> e_capacity d) \<and> parse_capacity (JNum 5) = None"
proof -
  have 1: "createEvent ie idt pd uid body now nid s = (Inl ValidationError, s) \<and>
      updateEvent ie idt pd uid eid body now s = (Inl ValidationError, s) \<and>
      http_status ValidationError = 400"
    if "parse_capacity (eb_capacity body) = None"
    using eventSchema_reject [OF that, of ie idt]
    by (simp add: createEvent_def updateEvent_def)
  have 2: "parse_capacity j = None \<longleftrightarrow> (\<nexists>q. j = JNum q \<and> q \<in> \<int> \<and> 10 \<le> q)"
  proof (cases "parse_capacity j")
    case None
    then show ?thesis
      using parse_capacity_Some [of j] by (auto simp: is_integer_iff)
  next
    case (Some c)
    then show ?thesis
      using parse_capacity_Some [of j c] by (auto simp: is_integer_iff)
  qed
  have 3: "e_capacity e \<in> \<int> \<and> 10 \<le> e_capacity e \<and> events s' = events s @ [e]"
    if a: "createEvent ie idt pd uid body now nid s = (Inr e, s')"
  proof -
    from createEvent_Inr [OF a] obtain v where v: "eventSchema ie idt body = Inr v"
      "e_capacity e = ev_capacity v" "events s' = events s @ [e]" by blast
    from eventSchema_capacity [OF v(1)] v(2,3) show ?thesis
      by (simp add: parse_capacity_Some is_integer_iff)
  qed
  have 4: "e_capacity e \<in> \<int> \<and> 10 \<le> e_capacity e \<and> e \<in> set (events s')"
    if a: "updateEvent ie idt pd uid eid body now s = (Inr e, s')"
  proof -
    from updateEvent_Inr [OF a] obtain v old where v: "eventSchema ie idt body = Inr v"
      "e_capacity e = ev_capacity v" "findOwnedEvent uid eid s = Some old"
      "e = writeEvent v (pd (ev_date v)) old"
      "events s' = update_first (\<lambda>e. e_id e = eid \<and> e_createdBy e = uid)
                         (writeEvent v (pd (ev_date v))) (events s)" by blast
    have "e \<in> set (events s')"
      unfolding v(4,5) using v(3) by (intro update_first_mem) (simp add: findOwnedEvent_def)
    with eventSchema_capacity [OF v(1)] v(2) show ?thesis
      by (simp add: parse_capacity_Some is_integer_iff)
  qed
  have 5: "capacity_inv (run ie idt pd reqs s)" if "capacity_inv s"
    by (rule run_capacity_inv [OF that])
  have 6: "capacity_inv (run ie idt pd reqs empty_db)"
    by (rule run_capacity_inv) (simp add: capacity_inv_def empty_db_def)
  have 7: "1 \<le> e_capacity d" if "validEventDoc d"
    using that by (simp add: validEventDoc_def)
  have 8: "parse_capacity (JNum 5) = None"
    by (simp add: parse_capacity_def)
  from 1 2 3 4 5 6 7 8 show ?thesis by blast
qed

text \<open>
  A capacity of nine and a half is refused on both routes; the launch with capacity 20
  is created, and lowered to 10 by an update.
\<close>

theorem event_capacity_minimum_witness:
  "parse_capacity (eb_capacity (launch_body (19 / 2))) = None \<and>
   createEvent (\<lambda>e. True) (\<lambda>d. True) (\<lambda>d. 5000) 7 (launch_body (19 / 2)) 1000 1 empty_db =
     (Inl ValidationError, empty_db) \<and>
   updateEvent (\<lambda>e. True) (\<lambda>d. True) (\<lambda>d. 5000) 7 1 (launch_body (19 / 2)) 1000 empty_db =
     (Inl ValidationError, empty_db) \<and>
   createEvent (\<lambda>e. True) (\<lambda>d. True) (\<lambda>d. 5000) 7 (launch_body 20) 1000 1 empty_db =
     (Inr (launch_event 20), replay [PostEvent 7 (launch_body 20) 1000 1]) \<and>
   e_capacity (launch_event 20) \<in> \<int> \<and> 10 \<le> e_capacity (launch_event 20) \<and>
   updateEvent (\<lambda>e. True) (\<lambda>d. True) (\<lambda>d. 5000) 7 1 (launch_body 10) 1006 busy_db =
     (Inr (launch_event 10), lowered_db) \<and>
   launch_event 10 \<in> set (events lowered_db) \<and>
   capacity_inv busy_db \<and> capacity_inv (run (\<lambda>e. True) (\<lambda>d. True) (\<lambda>d. 5000) party_history busy_db) \<and>
   validEventDoc (launch_event 20) \<and> 1 \<le> e_capacity (launch_event 20)"
proof -
  have r: "parse_capacity (eb_capacity (launch_body (19 / 2))) = None" by code_simp
  have c: "createEvent (\<lambda>e. True) (\<lambda>d. True) (\<lambda>d. 5000) 7 (launch_body 20) 1000 1 empty_db =
     (Inr (launch_event 20), replay [PostEvent 7 (launch_body 20) 1000 1])"
    by code_simp
  have u: "updateEvent (\<lambda>e. True) (\<lambda>d. True) (\<lambda>d. 5000) 7 1 (launch_body 10) 1006 busy_db =
     (Inr (launch_event 10), lowered_db)"
    by code_simp
  have i: "capacity_inv busy_db" by code_simp
  have v: "validEventDoc (launch_event 20)" by code_simp
  from event_capacity_minimum [where ie = "\<lambda>e. True" and idt = "\<lambda>d. True" and pd = "\<lambda>d. 5000"
      and body = "launch_body (19 / 2)" and uid = 7 and eid = 1 and now = 1000 and nid = 1
      and s = empty_db] r
  have 1: "createEvent (\<lambda>e. True) (\<lambda>d. True) (\<lambda>d. 5000) 7 (launch_body (19 / 2)) 1000 1 empty_db =
     (Inl ValidationError, empty_db) \<and>
   updateEvent (\<lambda>e. True) (\<lambda>d. True) (\<lambda>d. 5000) 7 1 (launch_body (19 / 2)) 1000 empty_db =
     (Inl ValidationError, empty_db)"
    by blast
  from event_capacity_minimum [where ie = "\<lambda>e. True" and idt = "\<lambda>d. True" and pd = "\<lambda>d. 5000"
      and body = "launch_body 20" and uid = 7 and now = 1000 and nid = 1 and s = empty_db
      and e = "launch_event 20" and s' = "replay [PostEvent 7 (launch_body 20) 1000 1]"
      and d = "launch_event 20"] c v
  have 2: "e_capacity (launch_event 20) \<in> \<int> \<and> 10 \<le> e_capacity (launch_event 20) \<and>
      1 \<le> e_capacity (launch_event 20)"
    by blast
  from event_capacity_minimum [where ie = "\<lambda>e. True" and idt = "\<lambda>d. True" and pd = "\<lambda>d. 5000"
      and body = "launch_body 10" and uid = 7 and eid = 1 and now = 1006 and s = busy_db
      and e = "launch_event 10" and s' = lowered_db and reqs = party_history] u i
  have 3: "launch_event 10 \<in> set (events lowered_db) \<and>
      capacity_inv (run (\<lambda>e. True) (\<lambda>d. True) (\<lambda>d. 5000) party_history busy_db)"
    by blast
  from r c u i v 1 2 3 show ?thesis by blast
qed

section \<open>The invitee list\<close>
















section \<open>Dispatch of the invitation\<close>

lemma createToken_emailSent:
  "createToken ie configured transport tok uid eid body now nid s = (Inr c, s', logged) \<Longrightarrow>
   c_emailSent c = configured"
  by (auto simp: createToken_def Let_def split: sum.splits option.splits prod.splits if_splits)

text \<open>
  C9, evaluated where the dispatch fails.  The mail service is configured and the
  transport refuses the message.  The token is created and stays stored, the answer is
  the created token, the failure is logged; the answer's \<open>emailSent\<close> flag is
  \<open>True\<close>, since it repeats whether the service is configured.
\<close>

theorem createToken_dispatch_failure:
  "createToken (\<lambda>e. True) True (Inl ''connection refused'') ''aa'' 7 1 (invite_body ''a@x.io'')
     1001 11 (replay [PostEvent 7 (launch_body 20) 1000 1]) =
   (Inr \<lparr>c_id = 11, c_email = ''a@x.io'', c_name = None, c_token = ''aa'', c_rsvpStatus = None,
         c_emailSent = True\<rparr>,
    (replay [PostEvent 7 (launch_body 20) 1000 1])\<lparr>tokens := [invitation 11 ''a@x.io'' ''aa'' 1001]\<rparr>,
    [''Failed to send invitation email: connection refused''])"
  by code_simp

end
